theory Spec2Isabelle
  imports Main
begin

section \<open>The posts API of \<^verbatim>\<open>src/routes/api/posts.js\<close>\<close>

subsection \<open>Documents\<close>

text \<open>
  Modelled from the spec: the schemas \<^verbatim>\<open>models/Post\<close> and \<^verbatim>\<open>models/User\<close> are
  required by the route module but are not part of the sources, so the fields of a Like,
  a Comment, a Post and a User are the ones of the spec's data model. Identifiers
  (ObjectIds, compared by the handlers through \<^verbatim>\<open>toString()\<close>) are strings, timestamps
  are integers.
\<close>

record like =
  like_user :: string

record comment =
  comment_id :: string
  comment_text :: string
  comment_name :: string
  comment_avatar :: string
  comment_user :: string
  comment_date :: int

record post =
  post_id :: string
  post_text :: string
  post_name :: string
  post_avatar :: string
  post_user :: string
  likes :: "like list"
  comments :: "comment list"
  post_date :: int

record user =
  user_id :: string
  user_name :: string
  user_avatar :: string

text \<open>
  The persistence store: the two collections the handlers query. A collection is the
  list of its documents; the store itself never fails (faults of the database
  connection are outside the model).
\<close>

record store =
  posts :: "post list"
  users :: "user list"

subsection \<open>Exceptions and responses\<close>

text \<open>
  The exceptions the handlers can meet: the \<^verbatim>\<open>CastError\<close> Mongoose raises for an id
  that is not a well-formed ObjectId, and the \<^verbatim>\<open>TypeError\<close> of JavaScript for a
  property read on \<^verbatim>\<open>null\<close> or a call of \<^verbatim>\<open>undefined\<close>. Only the first carries a
  \<^verbatim>\<open>kind\<close>.
\<close>

datatype exn = CastError | TypeError

fun kind :: "exn \<Rightarrow> string option" where
  "kind CastError = Some ''ObjectId''"
| "kind TypeError = None"

datatype body =
    JPost post
  | JLikes "like list"
  | JComments "comment list"
  | JMsg string
  | JErrors "string list"
  | Plain string

text \<open>
  What a handler leaves behind: a response with its status code and body, or an
  exception that escaped the handler (no response was sent by it).
\<close>

datatype reply = Reply nat body | Uncaught exn

subsection \<open>The JavaScript array operations the handlers use\<close>

text \<open>\<^verbatim>\<open>xs.indexOf(x)\<close>: the first index of \<open>x\<close>, or \<open>-1\<close>.\<close>

fun indexOf :: "'a list \<Rightarrow> 'a \<Rightarrow> int" where
  "indexOf [] x = - 1"
| "indexOf (y # ys) x =
     (if y = x then 0 else (let i = indexOf ys x in if i < 0 then - 1 else i + 1))"

text \<open>
  \<^verbatim>\<open>xs.splice(start, count)\<close>, the array it leaves: a negative \<open>start\<close> counts from
  the end, and both the start and the count are clamped to the array.
\<close>

definition splice_js :: "'a list \<Rightarrow> int \<Rightarrow> nat \<Rightarrow> 'a list" where
  "splice_js xs start cnt =
     (let n = int (length xs);
          s = (if start < 0 then max (n + start) 0 else min start n);
          k = min (int cnt) (n - s)
      in take (nat s) xs @ drop (nat (s + k)) xs)"

definition unshift :: "'a \<Rightarrow> 'a list \<Rightarrow> 'a list" where
  "unshift x xs = x # xs"

subsection \<open>The store's operations\<close>

text \<open>
  \<^verbatim>\<open>Post.findById(id)\<close>: a \<^verbatim>\<open>CastError\<close> for an id that is not well formed (the
  predicate \<open>ok\<close>, Mongoose's ObjectId cast), else the document with that id or
  \<^verbatim>\<open>null\<close>.
\<close>

definition Post_findById :: "(string \<Rightarrow> bool) \<Rightarrow> post list \<Rightarrow> string \<Rightarrow> exn + post option" where
  "Post_findById ok docs pid =
     (if ok pid then Inr (find (\<lambda>p. post_id p = pid) docs) else Inl CastError)"

definition User_findById :: "(string \<Rightarrow> bool) \<Rightarrow> user list \<Rightarrow> string \<Rightarrow> exn + user option" where
  "User_findById ok docs uid =
     (if ok uid then Inr (find (\<lambda>u. user_id u = uid) docs) else Inl CastError)"

text \<open>\<^verbatim>\<open>post.save()\<close> of a loaded document: the document of that id is replaced.\<close>

definition save :: "post \<Rightarrow> post list \<Rightarrow> post list" where
  "save p docs = map (\<lambda>q. if post_id q = post_id p then p else q) docs"

text \<open>\<^verbatim>\<open>post.deleteOne()\<close>: the document of that id is removed.\<close>

definition deleteOne :: "post \<Rightarrow> post list \<Rightarrow> post list" where
  "deleteOne p docs = filter (\<lambda>q. post_id q \<noteq> post_id p) docs"

text \<open>
  \<^verbatim>\<open>validationResult(req)\<close> for the rule
  \<^verbatim>\<open>check('text', 'Text is required').not().isEmpty()\<close>: the list of violated rules.
\<close>

definition validationResult :: "string \<Rightarrow> string list" where
  "validationResult txt = (if txt = [] then [''Text is required''] else [])"

definition server_error :: reply where
  "server_error = Reply 500 (Plain ''Server Error'')"

definition post_not_found :: reply where
  "post_not_found = Reply 404 (JMsg ''Post not found'')"

subsection \<open>The handlers\<close>

text \<open>
  Each handler is its \<^verbatim>\<open>try\<close> block, which either completes with a response and the
  store it leaves or raises, followed by its \<^verbatim>\<open>catch\<close> block. The store is written
  only by \<^verbatim>\<open>save\<close> and \<^verbatim>\<open>deleteOne\<close>, the last effect of a block, so a block that
  raises leaves the store as it was.
\<close>

text \<open>
  \<^verbatim>\<open>POST api/posts\<close>. A violated validation rule is answered, before the \<^verbatim>\<open>try\<close>
  block, by a 400 with \<^verbatim>\<open>errors.array()\<close>. The id and the date of the new post are
  given by the store (\<open>new_id\<close>, \<open>now\<close>); the block reads \<^verbatim>\<open>user.name\<close> with no test
  of \<^verbatim>\<open>user\<close>.
\<close>

definition create_post_try ::
  "(string \<Rightarrow> bool) \<Rightarrow> string \<Rightarrow> int \<Rightarrow> store \<Rightarrow> string \<Rightarrow> string \<Rightarrow> exn + reply \<times> store" where
  "create_post_try ok new_id now db caller txt =
     (case User_findById ok (users db) caller of
        Inl e \<Rightarrow> Inl e
      | Inr None \<Rightarrow> Inl TypeError
      | Inr (Some u) \<Rightarrow>
         (let newPost =
                \<lparr>post_id = new_id, post_text = txt, post_name = user_name u,
                 post_avatar = user_avatar u, post_user = caller, likes = [], comments = [],
                 post_date = now\<rparr>
          in Inr (Reply 200 (JPost newPost), db\<lparr>posts := posts db @ [newPost]\<rparr>)))"

definition create_post ::
  "(string \<Rightarrow> bool) \<Rightarrow> string \<Rightarrow> int \<Rightarrow> store \<Rightarrow> string \<Rightarrow> string \<Rightarrow> reply \<times> store" where
  "create_post ok new_id now db caller txt =
     (if validationResult txt \<noteq> [] then (Reply 400 (JErrors (validationResult txt)), db)
      else (case create_post_try ok new_id now db caller txt of
              Inr r \<Rightarrow> r
            | Inl err \<Rightarrow> (server_error, db)))"

text \<open>\<^verbatim>\<open>GET api/posts/:id\<close>\<close>

definition get_post_try :: "(string \<Rightarrow> bool) \<Rightarrow> store \<Rightarrow> string \<Rightarrow> exn + reply \<times> store" where
  "get_post_try ok db pid =
     (case Post_findById ok (posts db) pid of
        Inl e \<Rightarrow> Inl e
      | Inr None \<Rightarrow> Inr (post_not_found, db)
      | Inr (Some p) \<Rightarrow> Inr (Reply 200 (JPost p), db))"

definition get_post :: "(string \<Rightarrow> bool) \<Rightarrow> store \<Rightarrow> string \<Rightarrow> reply \<times> store" where
  "get_post ok db pid =
     (case get_post_try ok db pid of
        Inr r \<Rightarrow> r
      | Inl err \<Rightarrow>
          if kind err = Some ''ObjectId'' then (post_not_found, db)
          else (server_error, db))"

text \<open>\<^verbatim>\<open>DELETE api/posts/:id\<close>\<close>

definition delete_post_try ::
  "(string \<Rightarrow> bool) \<Rightarrow> store \<Rightarrow> string \<Rightarrow> string \<Rightarrow> exn + reply \<times> store" where
  "delete_post_try ok db caller pid =
     (case Post_findById ok (posts db) pid of
        Inl e \<Rightarrow> Inl e
      | Inr None \<Rightarrow> Inr (post_not_found, db)
      | Inr (Some p) \<Rightarrow>
          if post_user p \<noteq> caller then Inr (Reply 401 (JMsg ''User not authorize''), db)
          else Inr (Reply 200 (JMsg ''Post removed''),
                    db\<lparr>posts := deleteOne p (posts db)\<rparr>))"

definition delete_post :: "(string \<Rightarrow> bool) \<Rightarrow> store \<Rightarrow> string \<Rightarrow> string \<Rightarrow> reply \<times> store" where
  "delete_post ok db caller pid =
     (case delete_post_try ok db caller pid of
        Inr r \<Rightarrow> r
      | Inl err \<Rightarrow>
          if kind err = Some ''ObjectId'' then (post_not_found, db)
          else (server_error, db))"

text \<open>
  \<^verbatim>\<open>PUT api/posts/like/:id\<close>. The block reads \<^verbatim>\<open>post.likes\<close> with no test of
  \<^verbatim>\<open>post\<close>: on \<^verbatim>\<open>null\<close> that is a \<^verbatim>\<open>TypeError\<close>. The \<^verbatim>\<open>catch\<close> block answers 500
  whatever the exception.
\<close>

definition like_post_try ::
  "(string \<Rightarrow> bool) \<Rightarrow> store \<Rightarrow> string \<Rightarrow> string \<Rightarrow> exn + reply \<times> store" where
  "like_post_try ok db caller pid =
     (case Post_findById ok (posts db) pid of
        Inl e \<Rightarrow> Inl e
      | Inr None \<Rightarrow> Inl TypeError
      | Inr (Some p) \<Rightarrow>
          if length (filter (\<lambda>l. like_user l = caller) (likes p)) > 0
          then Inr (Reply 400 (JMsg ''Post already liked''), db)
          else (let p' = p\<lparr>likes := unshift \<lparr>like_user = caller\<rparr> (likes p)\<rparr>
                in Inr (Reply 200 (JLikes (likes p')), db\<lparr>posts := save p' (posts db)\<rparr>)))"

definition like_post :: "(string \<Rightarrow> bool) \<Rightarrow> store \<Rightarrow> string \<Rightarrow> string \<Rightarrow> reply \<times> store" where
  "like_post ok db caller pid =
     (case like_post_try ok db caller pid of
        Inr r \<Rightarrow> r
      | Inl err \<Rightarrow> (server_error, db))"

text \<open>\<^verbatim>\<open>PUT api/posts/unlike/:id\<close>\<close>

definition unlike_post_try ::
  "(string \<Rightarrow> bool) \<Rightarrow> store \<Rightarrow> string \<Rightarrow> string \<Rightarrow> exn + reply \<times> store" where
  "unlike_post_try ok db caller pid =
     (case Post_findById ok (posts db) pid of
        Inl e \<Rightarrow> Inl e
      | Inr None \<Rightarrow> Inl TypeError
      | Inr (Some p) \<Rightarrow>
          if length (filter (\<lambda>l. like_user l = caller) (likes p)) = 0
          then Inr (Reply 400 (JMsg ''Post has not yet been liked''), db)
          else (let removeIndex = indexOf (map like_user (likes p)) caller;
                    p' = p\<lparr>likes := splice_js (likes p) removeIndex 1\<rparr>
                in Inr (Reply 200 (JLikes (likes p')), db\<lparr>posts := save p' (posts db)\<rparr>)))"

definition unlike_post :: "(string \<Rightarrow> bool) \<Rightarrow> store \<Rightarrow> string \<Rightarrow> string \<Rightarrow> reply \<times> store" where
  "unlike_post ok db caller pid =
     (case unlike_post_try ok db caller pid of
        Inr r \<Rightarrow> r
      | Inl err \<Rightarrow> (server_error, db))"

text \<open>
  \<^verbatim>\<open>POST api/posts/comment/:id\<close>. The id and the date of the new comment are given
  by the store when the comment is added (\<open>new_id\<close>, \<open>now\<close>). The block reads
  \<^verbatim>\<open>user.name\<close> and \<^verbatim>\<open>post.comments\<close> with no test of \<^verbatim>\<open>user\<close> or
  \<^verbatim>\<open>post\<close>.
\<close>

definition add_comment_try ::
  "(string \<Rightarrow> bool) \<Rightarrow> string \<Rightarrow> int \<Rightarrow> store \<Rightarrow> string \<Rightarrow> string \<Rightarrow> string \<Rightarrow>
     exn + reply \<times> store" where
  "add_comment_try ok new_id now db caller pid txt =
     (case User_findById ok (users db) caller of
        Inl e \<Rightarrow> Inl e
      | Inr uo \<Rightarrow>
         (case Post_findById ok (posts db) pid of
            Inl e \<Rightarrow> Inl e
          | Inr po \<Rightarrow>
             (case uo of
                None \<Rightarrow> Inl TypeError
              | Some u \<Rightarrow>
                 (case po of
                    None \<Rightarrow> Inl TypeError
                  | Some p \<Rightarrow>
                     (let newComment =
                            \<lparr>comment_id = new_id, comment_text = txt,
                             comment_name = user_name u, comment_avatar = user_avatar u,
                             comment_user = caller, comment_date = now\<rparr>;
                          p' = p\<lparr>comments := unshift newComment (comments p)\<rparr>
                      in Inr (Reply 200 (JComments (comments p')),
                              db\<lparr>posts := save p' (posts db)\<rparr>))))))"

text \<open>
  Before its \<^verbatim>\<open>try\<close> block the handler tests the validation result. On a violated
  rule it evaluates \<^verbatim>\<open>res.status(400).json({ errors: error.array() })\<close>, where
  \<^verbatim>\<open>error\<close> is the function imported from \<^verbatim>\<open>console\<close> (line 8), not the
  validation result \<^verbatim>\<open>errors\<close>: \<^verbatim>\<open>error.array\<close> is \<^verbatim>\<open>undefined\<close>, the call raises
  a \<^verbatim>\<open>TypeError\<close> while the argument of \<^verbatim>\<open>json\<close> is evaluated, outside every
  \<^verbatim>\<open>try\<close>, and nothing is sent.
\<close>

definition add_comment ::
  "(string \<Rightarrow> bool) \<Rightarrow> string \<Rightarrow> int \<Rightarrow> store \<Rightarrow> string \<Rightarrow> string \<Rightarrow> string \<Rightarrow>
     reply \<times> store" where
  "add_comment ok new_id now db caller pid txt =
     (if validationResult txt \<noteq> [] then (Uncaught TypeError, db)
      else (case add_comment_try ok new_id now db caller pid txt of
              Inr r \<Rightarrow> r
            | Inl err \<Rightarrow> (server_error, db)))"

text \<open>\<^verbatim>\<open>DELETE api/posts/comment/:id/:comment_id\<close>\<close>

definition delete_comment_try ::
  "(string \<Rightarrow> bool) \<Rightarrow> store \<Rightarrow> string \<Rightarrow> string \<Rightarrow> string \<Rightarrow> exn + reply \<times> store" where
  "delete_comment_try ok db caller pid cid =
     (case Post_findById ok (posts db) pid of
        Inl e \<Rightarrow> Inl e
      | Inr None \<Rightarrow> Inl TypeError
      | Inr (Some p) \<Rightarrow>
         (case find (\<lambda>c. comment_id c = cid) (comments p) of
            None \<Rightarrow> Inr (Reply 404 (JMsg ''Comment is not found''), db)
          | Some c \<Rightarrow>
              if comment_user c \<noteq> caller
              then Inr (Reply 401 (JMsg ''User is not authorized''), db)
              else (let removeIndex = indexOf (map comment_user (comments p)) caller;
                        p' = p\<lparr>comments := splice_js (comments p) removeIndex 1\<rparr>
                    in Inr (Reply 200 (JComments (comments p')),
                            db\<lparr>posts := save p' (posts db)\<rparr>))))"

definition delete_comment ::
  "(string \<Rightarrow> bool) \<Rightarrow> store \<Rightarrow> string \<Rightarrow> string \<Rightarrow> string \<Rightarrow> reply \<times> store" where
  "delete_comment ok db caller pid cid =
     (case delete_comment_try ok db caller pid cid of
        Inr r \<Rightarrow> r
      | Inl err \<Rightarrow> (server_error, db))"

text \<open>The invariant of the data model: at most one Like per user in a post.\<close>

definition likes_unique :: "post \<Rightarrow> bool" where
  "likes_unique p = distinct (map like_user (likes p))"


subsection \<open>A small store, for the concrete instances below\<close>

text \<open>
  An id is taken to be well formed when it is 24 hexadecimal digits. The store holds one
  post of Ann's, liked by Ann, with two comments of Ann's (the most recent first).
\<close>

definition hex24 :: "string \<Rightarrow> bool" where
  "hex24 s = (length s = 24 \<and> list_all (\<lambda>c. c \<in> set ''0123456789abcdef'') s)"

definition ann :: string where "ann = ''0000000000000000000000a1''"
definition bob :: string where "bob = ''0000000000000000000000b2''"
definition pid1 :: string where "pid1 = ''0000000000000000000000c3''"
definition cid_old :: string where "cid_old = ''0000000000000000000000d4''"
definition cid_new :: string where "cid_new = ''0000000000000000000000d5''"
definition cid_third :: string where "cid_third = ''0000000000000000000000d6''"
definition absent_id :: string where "absent_id = ''0000000000000000000000ff''"

definition comment_old :: comment where
  "comment_old = \<lparr>comment_id = cid_old, comment_text = ''first'', comment_name = ''Ann'',
     comment_avatar = ''a.png'', comment_user = ann, comment_date = 10\<rparr>"

definition comment_new :: comment where
  "comment_new = \<lparr>comment_id = cid_new, comment_text = ''second'', comment_name = ''Ann'',
     comment_avatar = ''a.png'', comment_user = ann, comment_date = 20\<rparr>"

definition post1 :: post where
  "post1 = \<lparr>post_id = pid1, post_text = ''hello'', post_name = ''Ann'',
     post_avatar = ''a.png'', post_user = ann, likes = [\<lparr>like_user = ann\<rparr>],
     comments = [comment_new, comment_old], post_date = 5\<rparr>"

definition store1 :: store where
  "store1 = \<lparr>posts = [post1],
     users = [\<lparr>user_id = ann, user_name = ''Ann'', user_avatar = ''a.png''\<rparr>,
              \<lparr>user_id = bob, user_name = ''Bob'', user_avatar = ''b.png''\<rparr>]\<rparr>"

section \<open>Properties\<close>

subsection \<open>Array operations and the store\<close>

lemma indexOf_append:
  "x \<notin> set pre \<Longrightarrow> indexOf (pre @ x # suf) x = int (length pre)"
  by (induction pre) (auto simp: Let_def)

lemma indexOf_absent: "x \<notin> set xs \<Longrightarrow> indexOf xs x = - 1"
  by (induction xs) (auto simp: Let_def)

lemma indexOf_range:
  "x \<in> set xs \<Longrightarrow> 0 \<le> indexOf xs x \<and> indexOf xs x < int (length xs)"
  by (induction xs) (auto simp: Let_def)

lemma splice_one: "splice_js (pre @ y # suf) (int (length pre)) 1 = pre @ suf"
proof -
  have "nat (int (length pre) + 1) = Suc (length pre)" by simp
  then show ?thesis by (simp add: splice_js_def Let_def)
qed

lemma remove_first_by:
  assumes "a \<in> f ` set xs"
  shows "\<exists>pre d suf. xs = pre @ d # suf \<and> f d = a \<and> a \<notin> f ` set pre \<and>
           indexOf (map f xs) a = int (length pre) \<and>
           splice_js xs (indexOf (map f xs) a) 1 = pre @ suf"
proof -
  from assms have "\<exists>x\<in>set xs. f x = a" by auto
  from split_list_first_prop [OF this]
  obtain pre d suf where s: "xs = pre @ d # suf" "f d = a" "\<forall>y\<in>set pre. f y \<noteq> a"
    by blast
  then have n: "a \<notin> set (map f pre)" by auto
  have "indexOf (map f xs) a = int (length (map f pre))"
    using indexOf_append [OF n, of "map f suf"] s by simp
  then have i: "indexOf (map f xs) a = int (length pre)" by simp
  have "splice_js xs (indexOf (map f xs) a) 1 = pre @ suf"
    using splice_one [of pre d suf] i s(1) by simp
  with s n i show ?thesis by auto
qed

lemma find_post_id: "find (\<lambda>q. post_id q = k) docs = Some p \<Longrightarrow> post_id p = k"
  by (auto simp: find_Some_iff)

lemma find_save:
  "find (\<lambda>q. post_id q = k) docs = Some p \<Longrightarrow> post_id p' = k \<Longrightarrow>
   find (\<lambda>q. post_id q = k) (save p' docs) = Some p'"
  by (induction docs) (auto simp: save_def split: if_splits)

lemma findById_Some:
  "Post_findById ok docs pid = Inr (Some p) \<longleftrightarrow> ok pid \<and> find (\<lambda>q. post_id q = pid) docs = Some p"
  by (auto simp: Post_findById_def)

lemma findById_save:
  assumes "Post_findById ok docs pid = Inr (Some p)" and "post_id p' = post_id p"
  shows "Post_findById ok (save p' docs) pid = Inr (Some p')"
proof -
  from assms(1) have o: "ok pid" and f: "find (\<lambda>q. post_id q = pid) docs = Some p"
    by (simp_all add: findById_Some)
  from f have "post_id p = pid" by (rule find_post_id)
  with assms(2) have "post_id p' = pid" by simp
  from find_save [OF f this] o show ?thesis by (simp add: findById_Some)
qed


lemma filter_by_empty:
  "filter (\<lambda>l. f l = a) xs = [] \<longleftrightarrow> a \<notin> f ` set xs"
  by (auto simp: filter_empty_conv)

lemma like_post_found:
  assumes "Post_findById ok (posts db) pid = Inr (Some p)"
  shows "like_post ok db caller pid =
    (if caller \<in> like_user ` set (likes p)
     then (Reply 400 (JMsg ''Post already liked''), db)
     else (Reply 200 (JLikes (\<lparr>like_user = caller\<rparr> # likes p)),
           db\<lparr>posts := save (p\<lparr>likes := \<lparr>like_user = caller\<rparr> # likes p\<rparr>) (posts db)\<rparr>))"
  using assms
  by (simp add: like_post_def like_post_try_def filter_by_empty unshift_def Let_def)

lemma unlike_post_found:
  assumes "Post_findById ok (posts db) pid = Inr (Some p)"
  shows "unlike_post ok db caller pid =
    (if caller \<notin> like_user ` set (likes p)
     then (Reply 400 (JMsg ''Post has not yet been liked''), db)
     else (Reply 200 (JLikes (splice_js (likes p) (indexOf (map like_user (likes p)) caller) 1)),
           db\<lparr>posts := save (p\<lparr>likes :=
              splice_js (likes p) (indexOf (map like_user (likes p)) caller) 1\<rparr>) (posts db)\<rparr>))"
  using assms
  by (simp add: unlike_post_def unlike_post_try_def filter_by_empty Let_def)

lemma delete_comment_found:
  assumes "Post_findById ok (posts db) pid = Inr (Some p)"
  shows "delete_comment ok db caller pid cid =
    (case find (\<lambda>c. comment_id c = cid) (comments p) of
       None \<Rightarrow> (Reply 404 (JMsg ''Comment is not found''), db)
     | Some c \<Rightarrow>
        if comment_user c \<noteq> caller then (Reply 401 (JMsg ''User is not authorized''), db)
        else (Reply 200 (JComments
                (splice_js (comments p) (indexOf (map comment_user (comments p)) caller) 1)),
              db\<lparr>posts := save (p\<lparr>comments :=
                splice_js (comments p) (indexOf (map comment_user (comments p)) caller) 1\<rparr>)
                (posts db)\<rparr>))"
  using assms
  by (simp add: delete_comment_def delete_comment_try_def Let_def split: option.splits)

lemma add_comment_found:
  assumes "Post_findById ok (posts db) pid = Inr (Some p)"
  shows "snd (add_comment ok new_id now db caller pid txt) = db \<or>
         (\<exists>c. snd (add_comment ok new_id now db caller pid txt) =
            db\<lparr>posts := save (p\<lparr>comments := c # comments p\<rparr>) (posts db)\<rparr>)"
  using assms
  by (auto simp: add_comment_def add_comment_try_def unshift_def Let_def
           split: sum.splits option.splits)

lemma delete_comment_guards_passed:
  assumes "Post_findById ok (posts db) pid = Inr (Some p)"
      and "find (\<lambda>c. comment_id c = cid) (comments p) = Some c"
      and "comment_user c = caller"
  shows "\<exists>pre d suf. comments p = pre @ d # suf \<and> comment_user d = caller \<and>
           caller \<notin> comment_user ` set pre \<and>
           indexOf (map comment_user (comments p)) caller = int (length pre) \<and>
           delete_comment ok db caller pid cid =
             (Reply 200 (JComments (pre @ suf)),
              db\<lparr>posts := save (p\<lparr>comments := pre @ suf\<rparr>) (posts db)\<rparr>)"
proof -
  from assms(2) have "c \<in> set (comments p)"
    by (auto simp: find_Some_iff)
  with assms(3) have "caller \<in> comment_user ` set (comments p)" by auto
  from remove_first_by [OF this]
  obtain pre d suf where s: "comments p = pre @ d # suf" "comment_user d = caller"
      "caller \<notin> comment_user ` set pre"
      "indexOf (map comment_user (comments p)) caller = int (length pre)"
      "splice_js (comments p) (indexOf (map comment_user (comments p)) caller) 1 = pre @ suf"
    by blast
  have "delete_comment ok db caller pid cid =
      (Reply 200 (JComments (pre @ suf)),
       db\<lparr>posts := save (p\<lparr>comments := pre @ suf\<rparr>) (posts db)\<rparr>)"
    using delete_comment_found [OF assms(1), of caller cid] assms(2,3) s(5) by simp
  with s(1-4) show ?thesis by blast
qed

lemmas ex_defs = hex24_def ann_def bob_def pid1_def cid_old_def cid_new_def cid_third_def
  absent_id_def
  comment_old_def comment_new_def post1_def store1_def

lemma store1_find: "Post_findById hex24 (posts store1) pid1 = Inr (Some post1)"
  by (simp add: Post_findById_def ex_defs)

subsection \<open>Reading and deleting a post\<close>

text \<open>
  C9. For every id that is malformed (not a well-formed identifier) or that resolves to no
  post of the store, \<open>get_post\<close> answers 404 ``Post not found'', leaves the store as
  it is, and its answer is not the 500 ``Server Error''.
\<close>

theorem get_post_not_found:
  assumes "\<not> ok pid \<or> find (\<lambda>p. post_id p = pid) (posts db) = None"
  shows "get_post ok db pid = (Reply 404 (JMsg ''Post not found''), db) \<and>
         fst (get_post ok db pid) \<noteq> server_error"
  using assms
  by (auto simp: get_post_def get_post_try_def Post_findById_def post_not_found_def
                 server_error_def)

theorem get_post_not_found_witness:
  "get_post hex24 store1 ''not-an-id'' = (Reply 404 (JMsg ''Post not found''), store1) \<and>
   get_post hex24 store1 absent_id = (Reply 404 (JMsg ''Post not found''), store1) \<and>
   hex24 absent_id \<and> \<not> hex24 ''not-an-id''"
proof -
  have m: "\<not> hex24 ''not-an-id'' \<or> find (\<lambda>p. post_id p = ''not-an-id'') (posts store1) = None"
    by (simp add: hex24_def)
  have a: "\<not> hex24 absent_id \<or> find (\<lambda>p. post_id p = absent_id) (posts store1) = None"
    by (simp add: ex_defs)
  have w: "hex24 absent_id" "\<not> hex24 ''not-an-id''"
    by (simp_all add: ex_defs)
  from get_post_not_found [where ok = hex24 and pid = "''not-an-id''" and db = store1, OF m]
    get_post_not_found [where ok = hex24 and pid = absent_id and db = store1, OF a] w
  show ?thesis by simp
qed

text \<open>
  C8. For every post of the store and every caller who is not the post's owner,
  \<open>delete_post\<close> answers 401 and leaves the store unchanged; \<open>get_post\<close> afterwards
  still answers with the whole post, its likes and comments included.
\<close>

theorem delete_post_by_non_owner:
  assumes "Post_findById ok (posts db) pid = Inr (Some p)"
      and "post_user p \<noteq> caller"
  shows "delete_post ok db caller pid = (Reply 401 (JMsg ''User not authorize''), db) \<and>
         get_post ok (snd (delete_post ok db caller pid)) pid = (Reply 200 (JPost p), db)"
  using assms
  by (simp add: delete_post_def delete_post_try_def get_post_def get_post_try_def)

theorem delete_post_by_non_owner_witness:
  "delete_post hex24 store1 bob pid1 = (Reply 401 (JMsg ''User not authorize''), store1) \<and>
   get_post hex24 (snd (delete_post hex24 store1 bob pid1)) pid1 = (Reply 200 (JPost post1), store1)"
proof -
  have "post_user post1 \<noteq> bob" by (simp add: ex_defs)
  from delete_post_by_non_owner [OF store1_find this] show ?thesis .
qed

subsection \<open>Likes\<close>

text \<open>
  C3. The claim is that liking a post whose id resolves to no post fails with the 404 of
  \<open>get_post\<close>. The handler has no test of the loaded post: for the store \<open>store1\<close> and
  the well-formed id \<open>absent_id\<close>, which no post has, \<open>like_post\<close> answers 500
  ``Server Error''.
\<close>

theorem like_post_missing_is_server_error:
  "hex24 absent_id \<and> Post_findById hex24 (posts store1) absent_id = Inr None \<and>
   like_post hex24 store1 bob absent_id = (Reply 500 (Plain ''Server Error''), store1) \<and>
   like_post hex24 store1 bob ''not-an-id'' = (Reply 500 (Plain ''Server Error''), store1)"
  by (simp add: like_post_def like_post_try_def Post_findById_def server_error_def ex_defs)

text \<open>
  C5. For every post of the store and every caller with no like on it, a first
  \<open>like_post\<close> answers 200 with the likes grown by exactly one element, the caller's new
  like in front, and stores them; a second \<open>like_post\<close> by the same caller answers 400
  ``Post already liked'' and leaves the store, hence the likes, unchanged.
\<close>

theorem like_post_then_already_liked:
  assumes "Post_findById ok (posts db) pid = Inr (Some p)"
      and "caller \<notin> like_user ` set (likes p)"
  shows "(let (r1, db1) = like_post ok db caller pid;
              (r2, db2) = like_post ok db1 caller pid
          in r1 = Reply 200 (JLikes (\<lparr>like_user = caller\<rparr> # likes p)) \<and>
             Post_findById ok (posts db1) pid =
               Inr (Some (p\<lparr>likes := \<lparr>like_user = caller\<rparr> # likes p\<rparr>)) \<and>
             length (\<lparr>like_user = caller\<rparr> # likes p) = length (likes p) + 1 \<and>
             r2 = Reply 400 (JMsg ''Post already liked'') \<and> db2 = db1)"
proof -
  let ?p' = "p\<lparr>likes := \<lparr>like_user = caller\<rparr> # likes p\<rparr>"
  let ?db1 = "db\<lparr>posts := save ?p' (posts db)\<rparr>"
  have first: "like_post ok db caller pid =
      (Reply 200 (JLikes (\<lparr>like_user = caller\<rparr> # likes p)), ?db1)"
    using like_post_found [OF assms(1), of caller] assms(2) by simp
  have found: "Post_findById ok (posts ?db1) pid = Inr (Some ?p')"
    using findById_save [OF assms(1), of ?p'] by simp
  have "caller \<in> like_user ` set (likes ?p')" by simp
  then have second: "like_post ok ?db1 caller pid =
      (Reply 400 (JMsg ''Post already liked''), ?db1)"
    using like_post_found [OF found, of caller] by simp
  show ?thesis
    unfolding first using found second by simp
qed

theorem like_post_then_already_liked_witness:
  "fst (like_post hex24 store1 bob pid1) =
     Reply 200 (JLikes [\<lparr>like_user = bob\<rparr>, \<lparr>like_user = ann\<rparr>]) \<and>
   like_post hex24 (snd (like_post hex24 store1 bob pid1)) bob pid1 =
     (Reply 400 (JMsg ''Post already liked''), snd (like_post hex24 store1 bob pid1))"
proof -
  have "bob \<notin> like_user ` set (likes post1)" by (simp add: ex_defs)
  from like_post_then_already_liked [OF store1_find this]
  show ?thesis by (auto simp: Let_def split_def post1_def prod_eq_iff)
qed

text \<open>
  C6. For every post of the store and every caller with no like on it, \<open>like_post\<close>
  followed by \<open>unlike_post\<close> answers with the original likes, and the post read back from
  the store is the original post.
\<close>

theorem like_then_unlike_restores_likes:
  assumes "Post_findById ok (posts db) pid = Inr (Some p)"
      and "caller \<notin> like_user ` set (likes p)"
  shows "(let (r1, db1) = like_post ok db caller pid;
              (r2, db2) = unlike_post ok db1 caller pid
          in r1 = Reply 200 (JLikes (\<lparr>like_user = caller\<rparr> # likes p)) \<and>
             r2 = Reply 200 (JLikes (likes p)) \<and>
             Post_findById ok (posts db2) pid = Inr (Some p))"
proof -
  let ?p' = "p\<lparr>likes := \<lparr>like_user = caller\<rparr> # likes p\<rparr>"
  let ?db1 = "db\<lparr>posts := save ?p' (posts db)\<rparr>"
  have first: "like_post ok db caller pid =
      (Reply 200 (JLikes (\<lparr>like_user = caller\<rparr> # likes p)), ?db1)"
    using like_post_found [OF assms(1), of caller] assms(2) by simp
  have found: "Post_findById ok (posts ?db1) pid = Inr (Some ?p')"
    using findById_save [OF assms(1), of ?p'] by simp
  have cut: "splice_js (likes ?p') (indexOf (map like_user (likes ?p')) caller) 1 = likes p"
    using splice_one [of "[]" "\<lparr>like_user = caller\<rparr>" "likes p"] by simp
  have undo: "?p'\<lparr>likes := likes p\<rparr> = p" by simp
  have second: "unlike_post ok ?db1 caller pid =
      (Reply 200 (JLikes (likes p)), ?db1\<lparr>posts := save p (posts ?db1)\<rparr>)"
    using unlike_post_found [OF found, of caller] unfolding cut undo by simp
  have "Post_findById ok (posts (?db1\<lparr>posts := save p (posts ?db1)\<rparr>)) pid = Inr (Some p)"
    using findById_save [OF found, of p] by simp
  then show ?thesis
    by (simp add: first second)
qed

theorem like_then_unlike_restores_likes_witness:
  "fst (unlike_post hex24 (snd (like_post hex24 store1 bob pid1)) bob pid1) =
     Reply 200 (JLikes [\<lparr>like_user = ann\<rparr>]) \<and>
   Post_findById hex24
     (posts (snd (unlike_post hex24 (snd (like_post hex24 store1 bob pid1)) bob pid1))) pid1 =
     Inr (Some post1)"
proof -
  have "bob \<notin> like_user ` set (likes post1)" by (simp add: ex_defs)
  from like_then_unlike_restores_likes [OF store1_find this]
  show ?thesis by (simp add: Let_def split_def) (simp add: post1_def)
qed

text \<open>
  C7. For every post of the store, \<open>unlike_post\<close> answers 400 ``Post has not yet been
  liked'' exactly when no like of the post is the caller's, and then the store is
  unchanged; otherwise it removes the first like of the caller's, found by a scan from the
  front, and every other like stays, in order: the likes \<open>pre @ l # suf\<close>, with no like of
  the caller's in \<open>pre\<close>, become \<open>pre @ suf\<close>, in the answer and in the store.
\<close>

theorem unlike_post_removes_first_like:
  assumes "Post_findById ok (posts db) pid = Inr (Some p)"
  shows "(fst (unlike_post ok db caller pid) = Reply 400 (JMsg ''Post has not yet been liked'')
            \<longleftrightarrow> caller \<notin> like_user ` set (likes p)) \<and>
         (caller \<notin> like_user ` set (likes p) \<longrightarrow> snd (unlike_post ok db caller pid) = db) \<and>
         (caller \<in> like_user ` set (likes p) \<longrightarrow>
            (\<exists>pre l suf. likes p = pre @ l # suf \<and> like_user l = caller \<and>
               caller \<notin> like_user ` set pre \<and>
               fst (unlike_post ok db caller pid) = Reply 200 (JLikes (pre @ suf)) \<and>
               Post_findById ok (posts (snd (unlike_post ok db caller pid))) pid =
                 Inr (Some (p\<lparr>likes := pre @ suf\<rparr>))))"
proof (cases "caller \<in> like_user ` set (likes p)")
  case False
  then show ?thesis
    using unlike_post_found [OF assms, of caller] by simp
next
  case True
  from remove_first_by [OF True]
  obtain pre l suf where s: "likes p = pre @ l # suf" "like_user l = caller"
      "caller \<notin> like_user ` set pre"
      "splice_js (likes p) (indexOf (map like_user (likes p)) caller) 1 = pre @ suf"
    by blast
  have r: "unlike_post ok db caller pid =
      (Reply 200 (JLikes (pre @ suf)),
       db\<lparr>posts := save (p\<lparr>likes := pre @ suf\<rparr>) (posts db)\<rparr>)"
    using unlike_post_found [OF assms, of caller] True s(4) by simp
  have f: "Post_findById ok (posts (snd (unlike_post ok db caller pid))) pid =
      Inr (Some (p\<lparr>likes := pre @ suf\<rparr>))"
    using findById_save [OF assms, of "p\<lparr>likes := pre @ suf\<rparr>"] r by simp
  have "\<exists>pre l suf. likes p = pre @ l # suf \<and> like_user l = caller \<and>
          caller \<notin> like_user ` set pre \<and>
          fst (unlike_post ok db caller pid) = Reply 200 (JLikes (pre @ suf)) \<and>
          Post_findById ok (posts (snd (unlike_post ok db caller pid))) pid =
            Inr (Some (p\<lparr>likes := pre @ suf\<rparr>))"
    using s(1,2,3) r f by (intro exI [of _ pre] exI [of _ l] exI [of _ suf]) simp
  moreover have "fst (unlike_post ok db caller pid) \<noteq> Reply 400 (JMsg ''Post has not yet been liked'')"
    using r by simp
  ultimately show ?thesis using True by simp
qed

theorem unlike_post_removes_first_like_witness:
  "fst (unlike_post hex24 store1 bob pid1) = Reply 400 (JMsg ''Post has not yet been liked'') \<and>
   snd (unlike_post hex24 store1 bob pid1) = store1 \<and>
   fst (unlike_post hex24 store1 ann pid1) = Reply 200 (JLikes []) \<and>
   Post_findById hex24 (posts (snd (unlike_post hex24 store1 ann pid1))) pid1 =
     Inr (Some (post1\<lparr>likes := []\<rparr>))"
proof -
  have n: "bob \<notin> like_user ` set (likes post1)" by (simp add: ex_defs)
  have y: "ann \<in> like_user ` set (likes post1)" and l: "likes post1 = [\<lparr>like_user = ann\<rparr>]"
    by (simp_all add: ex_defs)
  from unlike_post_removes_first_like [OF store1_find, of bob] n
  have b: "fst (unlike_post hex24 store1 bob pid1) = Reply 400 (JMsg ''Post has not yet been liked'')"
    "snd (unlike_post hex24 store1 bob pid1) = store1" by simp_all
  from unlike_post_removes_first_like [OF store1_find, of ann] y
  obtain pre l' suf where "likes post1 = pre @ l' # suf"
    "fst (unlike_post hex24 store1 ann pid1) = Reply 200 (JLikes (pre @ suf))"
    "Post_findById hex24 (posts (snd (unlike_post hex24 store1 ann pid1))) pid1 =
       Inr (Some (post1\<lparr>likes := pre @ suf\<rparr>))"
    by auto
  with l have "pre = []" "suf = []"
    "fst (unlike_post hex24 store1 ann pid1) = Reply 200 (JLikes (pre @ suf))"
    "Post_findById hex24 (posts (snd (unlike_post hex24 store1 ann pid1))) pid1 =
       Inr (Some (post1\<lparr>likes := pre @ suf\<rparr>))"
    by (simp_all add: Cons_eq_append_conv append_eq_Cons_conv)
  with b show ?thesis by simp
qed

text \<open>
  C4. At most one like per user is preserved by every operation on likes and comments: for
  every post of the store that satisfies \<open>likes_unique\<close>, the post read back after
  \<open>like_post\<close>, \<open>unlike_post\<close>, \<open>add_comment\<close> or \<open>delete_comment\<close> satisfies it too,
  whatever the call answered (so after every successful call in particular).
\<close>

theorem likes_unique_preserved:
  assumes "Post_findById ok (posts db) pid = Inr (Some p)"
      and "likes_unique p"
  shows "(\<exists>p'. Post_findById ok (posts (snd (like_post ok db caller pid))) pid = Inr (Some p') \<and>
               likes_unique p') \<and>
         (\<exists>p'. Post_findById ok (posts (snd (unlike_post ok db caller pid))) pid = Inr (Some p') \<and>
               likes_unique p') \<and>
         (\<exists>p'. Post_findById ok (posts (snd (add_comment ok new_id now db caller pid txt))) pid =
                 Inr (Some p') \<and> likes_unique p') \<and>
         (\<exists>p'. Post_findById ok (posts (snd (delete_comment ok db caller pid cid))) pid =
                 Inr (Some p') \<and> likes_unique p')"
proof -
  have saved: "\<exists>p'. Post_findById ok (posts (db\<lparr>posts := save q (posts db)\<rparr>)) pid = Inr (Some p') \<and>
                 likes_unique p'"
    if "post_id q = post_id p" "likes_unique q" for q
    using findById_save [OF assms(1) that(1)] that(2) by simp
  have same: "\<exists>p'. Post_findById ok (posts db) pid = Inr (Some p') \<and> likes_unique p'"
    using assms by simp
  have r_like: "\<exists>p'. Post_findById ok (posts (snd (like_post ok db caller pid))) pid = Inr (Some p') \<and>
               likes_unique p'"
  proof (cases "caller \<in> like_user ` set (likes p)")
    case True
    then show ?thesis using like_post_found [OF assms(1), of caller] same by simp
  next
    case False
    with assms(2) have "likes_unique (p\<lparr>likes := \<lparr>like_user = caller\<rparr> # likes p\<rparr>)"
      by (simp add: likes_unique_def)
    from saved [OF _ this] False show ?thesis
      using like_post_found [OF assms(1), of caller] by simp
  qed
  have r_unlike: "\<exists>p'. Post_findById ok (posts (snd (unlike_post ok db caller pid))) pid = Inr (Some p') \<and>
               likes_unique p'"
  proof (cases "caller \<in> like_user ` set (likes p)")
    case False
    then show ?thesis using unlike_post_found [OF assms(1), of caller] same by simp
  next
    case True
    from remove_first_by [OF True]
    obtain pre l suf where s: "likes p = pre @ l # suf"
        "splice_js (likes p) (indexOf (map like_user (likes p)) caller) 1 = pre @ suf"
      by blast
    from assms(2) s(1) have "likes_unique (p\<lparr>likes := pre @ suf\<rparr>)"
      by (simp add: likes_unique_def)
    from saved [OF _ this] True s(2) show ?thesis
      using unlike_post_found [OF assms(1), of caller] by simp
  qed
  have r_add: "\<exists>p'. Post_findById ok (posts (snd (add_comment ok new_id now db caller pid txt))) pid =
                 Inr (Some p') \<and> likes_unique p'"
  proof -
    have "likes_unique (p\<lparr>comments := c # comments p\<rparr>)" for c
      using assms(2) by (simp add: likes_unique_def)
    from saved [OF _ this] same
    show ?thesis
      using add_comment_found [OF assms(1), of new_id now caller "txt"] by auto
  qed
  have r_del: "\<exists>p'. Post_findById ok (posts (snd (delete_comment ok db caller pid cid))) pid =
                 Inr (Some p') \<and> likes_unique p'"
  proof -
    have "likes_unique (p\<lparr>comments := cs\<rparr>)" for cs
      using assms(2) by (simp add: likes_unique_def)
    from saved [OF _ this] same
    show ?thesis
      using delete_comment_found [OF assms(1), of caller cid]
      by (auto split: option.splits)
  qed
  from r_like r_unlike r_add r_del show ?thesis by blast
qed

theorem likes_unique_preserved_witness:
  "likes_unique post1 \<and>
   fst (like_post hex24 store1 bob pid1) =
     Reply 200 (JLikes [\<lparr>like_user = bob\<rparr>, \<lparr>like_user = ann\<rparr>]) \<and>
   fst (unlike_post hex24 store1 ann pid1) = Reply 200 (JLikes []) \<and>
   (\<exists>cs. fst (add_comment hex24 cid_third 30 store1 bob pid1 ''third'') =
           Reply 200 (JComments cs)) \<and>
   (\<exists>cs. fst (delete_comment hex24 store1 ann pid1 cid_new) = Reply 200 (JComments cs)) \<and>
   (\<exists>p'. Post_findById hex24 (posts (snd (like_post hex24 store1 bob pid1))) pid1 = Inr (Some p') \<and>
         likes_unique p') \<and>
   (\<exists>p'. Post_findById hex24 (posts (snd (unlike_post hex24 store1 ann pid1))) pid1 = Inr (Some p') \<and>
         likes_unique p') \<and>
   (\<exists>p'. Post_findById hex24
           (posts (snd (add_comment hex24 cid_third 30 store1 bob pid1 ''third''))) pid1 =
           Inr (Some p') \<and> likes_unique p') \<and>
   (\<exists>p'. Post_findById hex24 (posts (snd (delete_comment hex24 store1 ann pid1 cid_new))) pid1 =
           Inr (Some p') \<and> likes_unique p')"
proof -
  have u: "likes_unique post1" by (simp add: likes_unique_def ex_defs)
  have l: "fst (like_post hex24 store1 bob pid1) =
      Reply 200 (JLikes [\<lparr>like_user = bob\<rparr>, \<lparr>like_user = ann\<rparr>])"
    using like_post_found [OF store1_find, of bob] by (simp add: ex_defs)
  have n: "fst (unlike_post hex24 store1 ann pid1) = Reply 200 (JLikes [])"
    using unlike_post_found [OF store1_find, of ann]
    by (simp add: post1_def splice_js_def)
  have a: "\<exists>cs. fst (add_comment hex24 cid_third 30 store1 bob pid1 ''third'') =
      Reply 200 (JComments cs)"
    using store1_find
    by (simp add: add_comment_def add_comment_try_def validationResult_def User_findById_def
          store1_def hex24_def ann_def bob_def Let_def)
  have d: "\<exists>cs. fst (delete_comment hex24 store1 ann pid1 cid_new) = Reply 200 (JComments cs)"
    using delete_comment_found [OF store1_find, of ann cid_new]
    by (simp add: post1_def comment_new_def comment_old_def cid_new_def cid_old_def)
  from likes_unique_preserved [OF store1_find u, of bob]
    likes_unique_preserved [OF store1_find u, of ann]
    likes_unique_preserved [OF store1_find u, of bob cid_third 30 "''third''"]
    likes_unique_preserved [OF store1_find u, of ann _ _ _ cid_new]
    u l n a d
  show ?thesis by blast
qed

subsection \<open>Comments\<close>

text \<open>
  C2. The claim is that adding a comment with an empty text is answered by a 400 that
  carries the violated rules, as \<open>create_post\<close> answers an empty text. On an empty text
  \<open>add_comment\<close> calls \<^verbatim>\<open>error.array()\<close> on the function imported from
  \<^verbatim>\<open>console\<close>: a \<^verbatim>\<open>TypeError\<close> escapes and no response is sent. The store, and
  with it the comments of the post, is unchanged.
\<close>

theorem add_comment_empty_text_uncaught:
  "validationResult '''' = [''Text is required''] \<and>
   add_comment hex24 cid_third 30 store1 bob pid1 '''' = (Uncaught TypeError, store1) \<and>
   create_post hex24 absent_id 30 store1 bob '''' =
     (Reply 400 (JErrors [''Text is required'']), store1)"
  by (simp add: add_comment_def create_post_def validationResult_def)

text \<open>
  C1. When \<open>delete_comment\<close> finds the comment \<open>c\<close> of id \<open>cid\<close> and \<open>c\<close> is the
  caller's, the index it removes is the index of the first comment of the caller's, found by
  a scan of the authors and not by the id: the comments \<open>pre @ d # suf\<close>, with no comment
  of the caller's in \<open>pre\<close> and \<open>d\<close> the caller's, become \<open>pre @ suf\<close>. The comments
  are kept most recent first, so \<open>d\<close> is the caller's most recent comment; when \<open>d\<close>
  is not the comment of id \<open>cid\<close>, the target \<open>c\<close> is still among the comments
  afterwards. The instance that follows deletes Ann's older comment by its id and loses her
  newer one.
\<close>

theorem delete_comment_removes_first_of_caller:
  assumes "Post_findById ok (posts db) pid = Inr (Some p)"
      and "find (\<lambda>c. comment_id c = cid) (comments p) = Some c"
      and "comment_user c = caller"
  shows "\<exists>pre d suf. comments p = pre @ d # suf \<and> comment_user d = caller \<and>
           caller \<notin> comment_user ` set pre \<and>
           indexOf (map comment_user (comments p)) caller = int (length pre) \<and>
           fst (delete_comment ok db caller pid cid) = Reply 200 (JComments (pre @ suf)) \<and>
           Post_findById ok (posts (snd (delete_comment ok db caller pid cid))) pid =
             Inr (Some (p\<lparr>comments := pre @ suf\<rparr>)) \<and>
           (comment_id d \<noteq> cid \<longrightarrow> c \<in> set suf)"
proof -
  from delete_comment_guards_passed [OF assms]
  obtain pre d suf where s: "comments p = pre @ d # suf" "comment_user d = caller"
      "caller \<notin> comment_user ` set pre"
      "indexOf (map comment_user (comments p)) caller = int (length pre)"
      "delete_comment ok db caller pid cid =
         (Reply 200 (JComments (pre @ suf)),
          db\<lparr>posts := save (p\<lparr>comments := pre @ suf\<rparr>) (posts db)\<rparr>)"
    by blast
  have f: "Post_findById ok (posts (snd (delete_comment ok db caller pid cid))) pid =
      Inr (Some (p\<lparr>comments := pre @ suf\<rparr>))"
    using findById_save [OF assms(1), of "p\<lparr>comments := pre @ suf\<rparr>"] s(5) by simp
  from assms(2) have c: "c \<in> set (comments p)" "comment_id c = cid"
    by (auto simp: find_Some_iff)
  have "c \<notin> set pre" using s(3) assms(3) by auto
  with c s(1) have "comment_id d \<noteq> cid \<longrightarrow> c \<in> set suf" by auto
  with s f show ?thesis
    by (intro exI [of _ pre] exI [of _ d] exI [of _ suf]) simp
qed

theorem delete_comment_removes_first_of_caller_witness:
  "find (\<lambda>c. comment_id c = cid_old) (comments post1) = Some comment_old \<and>
   comments post1 = [comment_new, comment_old] \<and>
   comment_new \<noteq> comment_old \<and>
   fst (delete_comment hex24 store1 ann pid1 cid_old) = Reply 200 (JComments [comment_old])"
proof -
  have t: "find (\<lambda>c. comment_id c = cid_old) (comments post1) = Some comment_old"
    by (simp add: ex_defs)
  have u: "comment_user comment_old = ann" and v: "comment_user comment_new = ann"
    and cs: "comments post1 = [comment_new, comment_old]"
    and ne: "comment_new \<noteq> comment_old"
    by (simp_all add: ex_defs)
  from delete_comment_removes_first_of_caller [OF store1_find t u]
  obtain pre d suf where s: "comments post1 = pre @ d # suf"
      "ann \<notin> comment_user ` set pre"
      "fst (delete_comment hex24 store1 ann pid1 cid_old) = Reply 200 (JComments (pre @ suf))"
    by blast
  from s(1,2) cs v have "pre = []"
    by (cases pre) auto
  with s(1) cs have "pre @ suf = [comment_old]" by simp
  with s(3) t cs ne show ?thesis by simp
qed

text \<open>
  C10. When both guards of \<open>delete_comment\<close> pass (a comment of id \<open>cid\<close> exists and is
  the caller's), the scan for the caller's first comment finds an index of the array:
  \<open>indexOf\<close> is not \<open>-1\<close>, the splice removes exactly one element, and the comments
  answered are one shorter than before.
\<close>

theorem delete_comment_index_in_range:
  assumes "Post_findById ok (posts db) pid = Inr (Some p)"
      and "find (\<lambda>c. comment_id c = cid) (comments p) = Some c"
      and "comment_user c = caller"
  shows "0 \<le> indexOf (map comment_user (comments p)) caller \<and>
         indexOf (map comment_user (comments p)) caller < int (length (comments p)) \<and>
         (\<exists>cs. fst (delete_comment ok db caller pid cid) = Reply 200 (JComments cs) \<and>
               cs = splice_js (comments p) (indexOf (map comment_user (comments p)) caller) 1 \<and>
               length cs + 1 = length (comments p))"
proof -
  from delete_comment_guards_passed [OF assms]
  obtain pre d suf where s: "comments p = pre @ d # suf"
      "indexOf (map comment_user (comments p)) caller = int (length pre)"
      "delete_comment ok db caller pid cid =
         (Reply 200 (JComments (pre @ suf)),
          db\<lparr>posts := save (p\<lparr>comments := pre @ suf\<rparr>) (posts db)\<rparr>)"
    by blast
  have "splice_js (comments p) (indexOf (map comment_user (comments p)) caller) 1 = pre @ suf"
    using splice_one [of pre d suf] s(1,2) by simp
  with s show ?thesis by simp
qed

theorem delete_comment_index_in_range_witness:
  "indexOf (map comment_user (comments post1)) ann = 0 \<and>
   (\<exists>cs. fst (delete_comment hex24 store1 ann pid1 cid_new) = Reply 200 (JComments cs) \<and>
         length cs + 1 = length (comments post1))"
proof -
  have t: "find (\<lambda>c. comment_id c = cid_new) (comments post1) = Some comment_new"
    by (simp add: ex_defs)
  have u: "comment_user comment_new = ann"
    and i: "indexOf (map comment_user (comments post1)) ann = 0"
    by (simp_all add: ex_defs)
  from delete_comment_index_in_range [OF store1_find t u] i show ?thesis by blast
qed

end
